theory Spec2Isabelle
  imports Complex_Main "HOL-Library.Word"
begin

section \<open>linproj: the R binding of LAPACK's dsygvx\<close>

text \<open>
  The package has two C files. \<^verbatim>\<open>src/LDA.c\<close> holds the shim \<^verbatim>\<open>dsygvx_c\<close>, which fixes
  the configuration of the generalized symmetric-definite eigensolver \<^verbatim>\<open>dsygvx\<close> and
  forwards the caller's buffers to it. \<^verbatim>\<open>src/linproj_init.c\<close> holds the table that
  registers the shim with R's loader.

  The solver itself is external: it is a parameter of the model. The shim is modelled
  with the memory it runs in, the one read it performs (\<^verbatim>\<open>*n\<close>), the arguments it passes
  and the record of the external calls it makes.
\<close>

subsection \<open>Values, pointers and memory\<close>

text \<open>
  A C \<^verbatim>\<open>int\<close> is 32 bits wide on every platform R runs on; it is a \<^typ>\<open>32 word\<close>, read as
  a signed number by \<^const>\<open>sint\<close>. The multiplication of words wraps modulo \<open>2 ^ 32\<close>,
  as the multiplication instruction of the compiled code does.

  The shim performs no floating-point operation: it only stores three \<^verbatim>\<open>double\<close> literals
  in local variables. A \<^verbatim>\<open>double\<close> is held as the number its literal denotes.

  The memory of the caller is an array of 32-bit cells, with no types on them: a cell holds
  the bits that were last stored there, be they an \<^verbatim>\<open>int\<close>, half of a \<^verbatim>\<open>double\<close> or
  nothing meaningful. A pointer is null or the address of a cell. Every address other than
  null has a cell: addresses the process has not mapped are not modelled.
\<close>

type_synonym c_int = "32 word"

datatype ptr = NULL | Addr nat

type_synonym memory = "nat \<Rightarrow> c_int"

text \<open>
  Reading an \<^verbatim>\<open>int\<close> through a pointer, as \<^verbatim>\<open>*n\<close> does: the read yields the bits of the
  cell, whatever was stored there. Only the null pointer cannot be read: the result is
  \<open>None\<close>.
\<close>

definition load_int :: "memory \<Rightarrow> ptr \<Rightarrow> c_int option" where
  "load_int mem p = (case p of NULL \<Rightarrow> None | Addr k \<Rightarrow> Some (mem k))"

subsection \<open>The external routine\<close>

text \<open>
  The twenty-three arguments of \<^verbatim>\<open>F77_CALL(dsygvx)\<close>, in the order of the call in
  \<^verbatim>\<open>LDA.c\<close>, lines 25 to 35. Fortran takes every argument by reference. An argument that
  is a pointer of the caller is recorded as that pointer; an argument that is the address
  of a local variable of the shim (\<^verbatim>\<open>&itype\<close>, \<^verbatim>\<open>&jobz\<close>, \<^verbatim>\<open>&range\<close>, \<^verbatim>\<open>&uplo\<close>, \<^verbatim>\<open>&vl\<close>,
  \<^verbatim>\<open>&vu\<close>, \<^verbatim>\<open>&abstol\<close>, \<^verbatim>\<open>&lwork\<close>) is recorded as the value the variable holds when the
  call is made.
\<close>

record dsygvx_call =
  c_itype :: c_int
  c_jobz :: char
  c_range :: char
  c_uplo :: char
  c_n :: ptr
  c_a :: ptr
  c_lda :: ptr
  c_b :: ptr
  c_ldb :: ptr
  c_vl :: real
  c_vu :: real
  c_il :: ptr
  c_iu :: ptr
  c_abstol :: real
  c_m :: ptr
  c_w :: ptr
  c_z :: ptr
  c_ldz :: ptr
  c_work :: ptr
  c_lwork :: c_int
  c_iwork :: ptr
  c_ifail :: ptr
  c_info :: ptr

text \<open>The external routine: what a call does to the memory of the caller.\<close>

type_synonym dsygvx_routine = "dsygvx_call \<Rightarrow> memory \<Rightarrow> memory"

subsection \<open>The shim\<close>

text \<open>The eleven parameters of \<^verbatim>\<open>dsygvx_c\<close> (\<^verbatim>\<open>LDA.c\<close>, lines 8 to 11), all pointers.\<close>

record dsygvx_c_args =
  arg_n :: ptr
  arg_a :: ptr
  arg_b :: ptr
  arg_il :: ptr
  arg_m :: ptr
  arg_w :: ptr
  arg_z :: ptr
  arg_work :: ptr
  arg_iwork :: ptr
  arg_ifail :: ptr
  arg_info :: ptr

text \<open>
  The order of the parameters in the signature: a caller that passes its arguments by
  position, as R's \<^verbatim>\<open>.C\<close> interface does, binds the first pointer to \<^verbatim>\<open>n\<close>, the second to
  \<^verbatim>\<open>a\<close>, and so on to \<^verbatim>\<open>info\<close>. Any other number of arguments does not fit the signature.
\<close>

fun dsygvx_c_positional :: "ptr list \<Rightarrow> dsygvx_c_args option" where
  "dsygvx_c_positional [n, a, b, il, m, w, z, work, iwork, ifail, info] =
     Some \<lparr>arg_n = n, arg_a = a, arg_b = b, arg_il = il, arg_m = m, arg_w = w, arg_z = z,
           arg_work = work, arg_iwork = iwork, arg_ifail = ifail, arg_info = info\<rparr>"
| "dsygvx_c_positional _ = None"

text \<open>
  The state an invocation runs in: the memory, and the external calls made so far, oldest
  first. The shim has no static variable, so there is nothing else.
\<close>

record world =
  mem :: memory
  calls :: "dsygvx_call list"

datatype fault = MemoryFault

text \<open>\<^verbatim>\<open>F77_CALL(dsygvx)(...)\<close>: the call is made and recorded.\<close>

definition F77_CALL_dsygvx :: "dsygvx_routine \<Rightarrow> dsygvx_call \<Rightarrow> world \<Rightarrow> world" where
  "F77_CALL_dsygvx dsygvx c s = \<lparr>mem = dsygvx c (mem s), calls = calls s @ [c]\<rparr>"

text \<open>
  \<^verbatim>\<open>dsygvx_c\<close>, statement by statement. The only access of the shim to the memory of the
  caller is the read \<^verbatim>\<open>*n\<close> of line 23; where \<^verbatim>\<open>n\<close> is null the invocation ends in a memory
  fault, before the call of line 25.
\<close>

definition dsygvx_c :: "dsygvx_routine \<Rightarrow> dsygvx_c_args \<Rightarrow> world \<Rightarrow> fault + world" where
  "dsygvx_c dsygvx args s =
     (let itype = (1 :: c_int);
          jobz = CHR ''V'';
          range = CHR ''I'';
          uplo = CHR ''U'';
          vl = (0 :: real);
          vu = (0 :: real);
          abstol = (1 / 10 ^ 5 :: real)
      in case load_int (mem s) (arg_n args) of
           None \<Rightarrow> Inl MemoryFault
         | Some nv \<Rightarrow>
             (let lwork = 8 * nv
              in Inr (F77_CALL_dsygvx dsygvx
                   \<lparr>c_itype = itype, c_jobz = jobz, c_range = range, c_uplo = uplo,
                    c_n = arg_n args, c_a = arg_a args, c_lda = arg_n args,
                    c_b = arg_b args, c_ldb = arg_n args,
                    c_vl = vl, c_vu = vu,
                    c_il = arg_il args, c_iu = arg_n args,
                    c_abstol = abstol,
                    c_m = arg_m args, c_w = arg_w args, c_z = arg_z args,
                    c_ldz = arg_n args,
                    c_work = arg_work args,
                    c_lwork = lwork,
                    c_iwork = arg_iwork args, c_ifail = arg_ifail args,
                    c_info = arg_info args\<rparr> s)))"

text \<open>
  The \<^verbatim>\<open>lwork\<close> arguments of the calls recorded in an outcome, read as signed integers;
  a faulted invocation has recorded none.
\<close>

definition lwork_passed :: "fault + world \<Rightarrow> int list" where
  "lwork_passed out = (case out of Inl _ \<Rightarrow> [] | Inr r \<Rightarrow> map (sint \<circ> c_lwork) (calls r))"

text \<open>The calls recorded in an outcome; a faulted invocation has recorded none.\<close>

definition calls_made :: "fault + world \<Rightarrow> dsygvx_call list" where
  "calls_made out = (case out of Inl _ \<Rightarrow> [] | Inr r \<Rightarrow> calls r)"

text \<open>
  The argument list of the call of lines 25 to 35, as a function of the parameters of the
  shim and of the value read at \<^verbatim>\<open>n\<close>. It is used to state the lemmas below;
  \<open>dsygvx_c_readable\<close> proves that it is the list \<^const>\<open>dsygvx_c\<close> passes.
\<close>

definition dsygvx_arguments :: "dsygvx_c_args \<Rightarrow> c_int \<Rightarrow> dsygvx_call" where
  "dsygvx_arguments args nv =
     \<lparr>c_itype = 1, c_jobz = CHR ''V'', c_range = CHR ''I'', c_uplo = CHR ''U'',
      c_n = arg_n args, c_a = arg_a args, c_lda = arg_n args,
      c_b = arg_b args, c_ldb = arg_n args, c_vl = 0, c_vu = 0,
      c_il = arg_il args, c_iu = arg_n args, c_abstol = 1 / 100000,
      c_m = arg_m args, c_w = arg_w args, c_z = arg_z args, c_ldz = arg_n args,
      c_work = arg_work args, c_lwork = 8 * nv,
      c_iwork = arg_iwork args, c_ifail = arg_ifail args, c_info = arg_info args\<rparr>"

text \<open>A call is on the buffers of an invocation when it is given the eleven pointers of it.\<close>

definition on_buffers :: "dsygvx_call \<Rightarrow> dsygvx_c_args \<Rightarrow> bool" where
  "on_buffers c args \<longleftrightarrow>
     c_n c = arg_n args \<and> c_a c = arg_a args \<and> c_b c = arg_b args \<and> c_il c = arg_il args
     \<and> c_m c = arg_m args \<and> c_w c = arg_w args \<and> c_z c = arg_z args
     \<and> c_work c = arg_work args \<and> c_iwork c = arg_iwork args
     \<and> c_ifail c = arg_ifail args \<and> c_info c = arg_info args"

text \<open>
  What the caller expects of the external routine when it hands it a set of buffers: the
  routine changes no cell outside the set, and what it leaves in the set depends on the
  cells of the set only.
\<close>

definition local_to :: "(memory \<Rightarrow> memory) \<Rightarrow> nat set \<Rightarrow> bool" where
  "local_to f A \<longleftrightarrow>
     (\<forall>m k. k \<notin> A \<longrightarrow> f m k = m k) \<and>
     (\<forall>m m'. (\<forall>k\<in>A. m k = m' k) \<longrightarrow> (\<forall>k\<in>A. f m k = f m' k))"

subsection \<open>What an invocation does, step by step\<close>

text \<open>
  The pointers of a call, in the order of the call: fifteen of the twenty-three arguments.
  The other eight are addresses of local variables of the shim.
\<close>

definition pointer_arguments :: "dsygvx_call \<Rightarrow> ptr list" where
  "pointer_arguments c =
     [c_n c, c_a c, c_lda c, c_b c, c_ldb c, c_il c, c_iu c, c_m c, c_w c, c_z c, c_ldz c,
      c_work c, c_iwork c, c_ifail c, c_info c]"

text \<open>The eleven pointers the caller supplies, in the order of the signature.\<close>

definition caller_pointers :: "dsygvx_c_args \<Rightarrow> ptr list" where
  "caller_pointers args =
     [arg_n args, arg_a args, arg_b args, arg_il args, arg_m args, arg_w args, arg_z args,
      arg_work args, arg_iwork args, arg_ifail args, arg_info args]"

text \<open>The eight local variables of the shim (\<^verbatim>\<open>LDA.c\<close>, lines 13 to 23).\<close>

datatype local_variable =
  Var_itype | Var_jobz | Var_range | Var_uplo | Var_vl | Var_vu | Var_abstol | Var_lwork

text \<open>
  What a C function of this kind can do to the machine, one step at a time: write a local
  variable of its own, read or write through a pointer, take a block from the heap or give
  one back, and call the external routine.
\<close>

datatype action =
    Write_local local_variable
  | Read ptr
  | Write ptr c_int
  | Allocate nat
  | Release nat
  | External dsygvx_call

text \<open>
  The steps of \<^verbatim>\<open>dsygvx_c\<close>, in the order of the source: the seven initialised locals of
  lines 13 to 21, the read \<^verbatim>\<open>*n\<close> and the local \<^verbatim>\<open>lwork\<close> of line 23, the call of line 25.
  Where the read faults nothing follows it.
\<close>

definition dsygvx_c_actions :: "dsygvx_c_args \<Rightarrow> world \<Rightarrow> action list" where
  "dsygvx_c_actions args s =
     [Write_local Var_itype, Write_local Var_jobz, Write_local Var_range,
      Write_local Var_uplo, Write_local Var_vl, Write_local Var_vu, Write_local Var_abstol,
      Read (arg_n args)]
     @ (case load_int (mem s) (arg_n args) of
          None \<Rightarrow> []
        | Some nv \<Rightarrow> [Write_local Var_lwork, External (dsygvx_arguments args nv)])"

text \<open>
  What a step does to the world of the caller and to the heap, which is the set of the
  blocks in use. A local variable is in neither. A read or a write through the null pointer
  faults.
\<close>

fun perform ::
  "dsygvx_routine \<Rightarrow> action \<Rightarrow> world \<times> nat set \<Rightarrow> fault + world \<times> nat set" where
  "perform dsygvx (Write_local x) (w, H) = Inr (w, H)"
| "perform dsygvx (Read p) (w, H) =
     (case load_int (mem w) p of None \<Rightarrow> Inl MemoryFault | Some v \<Rightarrow> Inr (w, H))"
| "perform dsygvx (Write p v) (w, H) =
     (case p of NULL \<Rightarrow> Inl MemoryFault | Addr k \<Rightarrow> Inr (w\<lparr>mem := (mem w)(k := v)\<rparr>, H))"
| "perform dsygvx (Allocate b) (w, H) = Inr (w, insert b H)"
| "perform dsygvx (Release b) (w, H) = Inr (w, H - {b})"
| "perform dsygvx (External c) (w, H) = Inr (F77_CALL_dsygvx dsygvx c w, H)"

fun replay ::
  "dsygvx_routine \<Rightarrow> action list \<Rightarrow> world \<times> nat set \<Rightarrow> fault + world \<times> nat set" where
  "replay dsygvx [] st = Inr st"
| "replay dsygvx (a # as) st =
     (case perform dsygvx a st of Inl e \<Rightarrow> Inl e | Inr st' \<Rightarrow> replay dsygvx as st')"

text \<open>The steps of each kind in a list of steps.\<close>

fun heap_step :: "action \<Rightarrow> bool" where
  "heap_step (Allocate b) = True"
| "heap_step (Release b) = True"
| "heap_step _ = False"

fun written :: "action \<Rightarrow> ptr list" where
  "written (Write p v) = [p]"
| "written _ = []"

fun read_from :: "action \<Rightarrow> ptr list" where
  "read_from (Read p) = [p]"
| "read_from _ = []"

fun called :: "action \<Rightarrow> dsygvx_call list" where
  "called (External c) = [c]"
| "called _ = []"

fun local_written :: "action \<Rightarrow> local_variable list" where
  "local_written (Write_local x) = [x]"
| "local_written _ = []"

definition heap_steps :: "action list \<Rightarrow> action list" where
  "heap_steps t = filter heap_step t"

definition writes :: "action list \<Rightarrow> ptr list" where
  "writes t = concat (map written t)"

definition reads :: "action list \<Rightarrow> ptr list" where
  "reads t = concat (map read_from t)"

definition externals :: "action list \<Rightarrow> dsygvx_call list" where
  "externals t = concat (map called t)"

definition local_writes :: "action list \<Rightarrow> local_variable list" where
  "local_writes t = concat (map local_written t)"

subsection \<open>The registration table\<close>

text \<open>
  \<^verbatim>\<open>linproj_init.c\<close>. A \<^verbatim>\<open>DL_FUNC\<close> is the address of a function, named here by the symbol
  of the function. An entry of the table gives a name, an address and a number of
  arguments; a null pointer is \<open>None\<close>. The members the initialiser leaves out are zero
  and are not modelled.
\<close>

datatype DL_FUNC = FunAddr string

record R_CMethodDef =
  name :: "string option"
  func :: "DL_FUNC option"
  numArgs :: int

definition CEntries :: "R_CMethodDef list" where
  "CEntries =
     [\<lparr>name = Some ''dsygvx_c'', func = Some (FunAddr ''dsygvx_c''), numArgs = 11\<rparr>,
      \<lparr>name = None, func = None, numArgs = 0\<rparr>]"

text \<open>
  Modelled from the spec: the four calling conventions of R's dynamic loader
  (\<^verbatim>\<open>R_ext/Rdynload.h\<close>), \<^verbatim>\<open>.C\<close>, \<^verbatim>\<open>.Call\<close>, \<^verbatim>\<open>.Fortran\<close> and \<^verbatim>\<open>.External\<close>. The loader is not
  part of the repository.
\<close>

datatype NativeSymbolType = R_C_SYM | R_CALL_SYM | R_FORTRAN_SYM | R_EXTERNAL_SYM

text \<open>
  Modelled from the spec: what the loader keeps for a loaded module, which is one table of
  registered routines for each calling convention, the flag that allows the lookup of a
  symbol that is not registered, and the handle of the shared object, through which every
  symbol the object exports can be found.
\<close>

record DllInfo =
  useDynamicSymbols :: bool
  CSymbols :: "R_CMethodDef list"
  CallSymbols :: "R_CMethodDef list"
  FortranSymbols :: "R_CMethodDef list"
  ExternalSymbols :: "R_CMethodDef list"
  handle :: "string \<rightharpoonup> DL_FUNC"

text \<open>
  Modelled from the spec: the entries of a table that the loader takes, which are those
  before the entry whose name is null.
\<close>

definition routines :: "R_CMethodDef list \<Rightarrow> R_CMethodDef list" where
  "routines table = takeWhile (\<lambda>e. name e \<noteq> None) table"

text \<open>
  Modelled from the spec: \<^verbatim>\<open>R_registerRoutines\<close> stores the routines of each table it is
  given and leaves alone a convention whose table is null. It leaves the lookup of
  unregistered symbols on, which is the default of the loader: turning it off takes the
  call of \<^verbatim>\<open>R_useDynamicSymbols\<close> after it.
\<close>

definition R_registerRoutines ::
  "DllInfo \<Rightarrow> R_CMethodDef list option \<Rightarrow> R_CMethodDef list option \<Rightarrow>
   R_CMethodDef list option \<Rightarrow> R_CMethodDef list option \<Rightarrow> DllInfo" where
  "R_registerRoutines info croutines callRoutines fortranRoutines externalRoutines =
     info\<lparr>useDynamicSymbols := True,
          CSymbols := (case croutines of None \<Rightarrow> CSymbols info | Some t \<Rightarrow> routines t),
          CallSymbols :=
            (case callRoutines of None \<Rightarrow> CallSymbols info | Some t \<Rightarrow> routines t),
          FortranSymbols :=
            (case fortranRoutines of None \<Rightarrow> FortranSymbols info | Some t \<Rightarrow> routines t),
          ExternalSymbols :=
            (case externalRoutines of None \<Rightarrow> ExternalSymbols info | Some t \<Rightarrow> routines t)\<rparr>"

text \<open>Modelled from the spec: \<^verbatim>\<open>R_useDynamicSymbols\<close> sets the flag.\<close>

definition R_useDynamicSymbols :: "DllInfo \<Rightarrow> bool \<Rightarrow> DllInfo" where
  "R_useDynamicSymbols info v = info\<lparr>useDynamicSymbols := v\<rparr>"

text \<open>Modelled from the spec: the table the loader keeps for a calling convention.\<close>

definition symbols_of :: "DllInfo \<Rightarrow> NativeSymbolType \<Rightarrow> R_CMethodDef list" where
  "symbols_of info t =
     (case t of
        R_C_SYM \<Rightarrow> CSymbols info
      | R_CALL_SYM \<Rightarrow> CallSymbols info
      | R_FORTRAN_SYM \<Rightarrow> FortranSymbols info
      | R_EXTERNAL_SYM \<Rightarrow> ExternalSymbols info)"

text \<open>
  Modelled from the spec: how the loader resolves a name for a calling convention. It
  looks in the table of the convention; a name that is not registered is looked up in the
  shared object only where the flag allows it.
\<close>

definition R_dlsym :: "DllInfo \<Rightarrow> NativeSymbolType \<Rightarrow> string \<Rightarrow> DL_FUNC option" where
  "R_dlsym info t s =
     (case find (\<lambda>e. name e = Some s) (symbols_of info t) of
        Some e \<Rightarrow> func e
      | None \<Rightarrow> if useDynamicSymbols info then handle info s else None)"

text \<open>
  Modelled from the spec: the module as R hands it to its initialisation function, with
  nothing registered and the lookup in the shared object allowed.
\<close>

definition loaded :: "(string \<rightharpoonup> DL_FUNC) \<Rightarrow> DllInfo" where
  "loaded h =
     \<lparr>useDynamicSymbols = True, CSymbols = [], CallSymbols = [], FortranSymbols = [],
      ExternalSymbols = [], handle = h\<rparr>"

text \<open>\<^verbatim>\<open>R_init_linproj\<close>: the two calls of lines 14 and 15; their results are not used.\<close>

definition R_init_linproj :: "DllInfo \<Rightarrow> DllInfo" where
  "R_init_linproj dll =
     (let dll1 = R_registerRoutines dll (Some CEntries) None None None;
          dll2 = R_useDynamicSymbols dll1 False
      in dll2)"

subsection \<open>Concrete inputs\<close>

text \<open>
  A stand-in for the external routine, for the evaluations below: it fails, leaving the
  status 3 at \<^verbatim>\<open>info\<close>.
\<close>

definition dsygvx_stub :: dsygvx_routine where
  "dsygvx_stub c m = (case c_info c of NULL \<Rightarrow> m | Addr k \<Rightarrow> m(k := 3))"

text \<open>The symbols a build of the package exports from its shared object.\<close>

definition linproj_so :: "string \<rightharpoonup> DL_FUNC" where
  "linproj_so =
     [''dsygvx_c'' \<mapsto> FunAddr ''dsygvx_c'',
      ''R_init_linproj'' \<mapsto> FunAddr ''R_init_linproj'']"

text \<open>Two sets of buffers, the first from cell 0 and the second from cell 100.\<close>

definition args0 :: dsygvx_c_args where
  "args0 =
     \<lparr>arg_n = Addr 0, arg_a = Addr 10, arg_b = Addr 20, arg_il = Addr 1, arg_m = Addr 2,
      arg_w = Addr 30, arg_z = Addr 40, arg_work = Addr 50, arg_iwork = Addr 70,
      arg_ifail = Addr 80, arg_info = Addr 3\<rparr>"

definition args1 :: dsygvx_c_args where
  "args1 =
     \<lparr>arg_n = Addr 100, arg_a = Addr 110, arg_b = Addr 120, arg_il = Addr 101,
      arg_m = Addr 102, arg_w = Addr 130, arg_z = Addr 140, arg_work = Addr 150,
      arg_iwork = Addr 170, arg_ifail = Addr 180, arg_info = Addr 103\<rparr>"


text \<open>The arguments of a caller that passes a null \<^verbatim>\<open>n\<close>.\<close>

definition args_null_n :: dsygvx_c_args where
  "args_null_n = args0\<lparr>arg_n := NULL\<rparr>"

text \<open>
  A memory that holds the dimension \<open>v\<close> at cells 0 and 100, the index 1 at cells 1 and 101
  and zero bits everywhere else, and a world on it in which no call has been made.
\<close>

definition mem_n :: "c_int \<Rightarrow> memory" where
  "mem_n v = (\<lambda>k. 0)(0 := v, 1 := 1, 100 := v, 101 := 1)"

text \<open>The cell a pointer is the address of: the extent of a buffer of one cell.\<close>

definition cell_of :: "ptr \<Rightarrow> nat set" where
  "cell_of p = (case p of NULL \<Rightarrow> {} | Addr k \<Rightarrow> {k})"

definition world_n :: "c_int \<Rightarrow> world" where
  "world_n v = \<lparr>mem = mem_n v, calls = []\<rparr>"

section \<open>Properties of the shim\<close>

subsection \<open>Auxiliary facts\<close>

text \<open>Reading the concrete memories.\<close>

lemma load_int_world_n:
  "load_int (mem (world_n v)) (Addr 0) = Some v"
  "load_int (mem (world_n v)) (Addr 100) = Some v"
  "load_int m NULL = None"
  by (simp_all add: load_int_def world_n_def mem_n_def)

lemma load_int_cell: "m k = m' k \<Longrightarrow> load_int m (Addr k) = load_int m' (Addr k)"
  by (simp add: load_int_def)

text \<open>The signed value of the product \<^verbatim>\<open>8 * (*n)\<close>.\<close>

lemma sint_8_times: "sint (8 * nv :: c_int) = signed_take_bit 31 (8 * sint nv)"
  by (simp add: sint_word_mult)

lemma signed_take_bit_31_cong: "signed_take_bit 31 (k::int) mod 2 ^ 32 = k mod 2 ^ 32"
  using take_bit_signed_take_bit [of 32 31 k]
  by (simp add: take_bit_eq_mod)

text \<open>The two outcomes of an invocation, according to whether \<^verbatim>\<open>*n\<close> can be read.\<close>

lemma dsygvx_c_readable:
  assumes "load_int (mem s) (arg_n args) = Some nv"
  shows "dsygvx_c dsygvx args s =
     Inr \<lparr>mem = dsygvx (dsygvx_arguments args nv) (mem s),
          calls = calls s @ [dsygvx_arguments args nv]\<rparr>"
  using assms by (simp add: dsygvx_c_def Let_def F77_CALL_dsygvx_def dsygvx_arguments_def)

lemma dsygvx_c_unreadable:
  assumes "load_int (mem s) (arg_n args) = None"
  shows "dsygvx_c dsygvx args s = Inl MemoryFault"
  using assms by (simp add: dsygvx_c_def Let_def)

lemma dsygvx_arguments_fields:
  "c_itype (dsygvx_arguments args nv) = 1"
  "c_jobz (dsygvx_arguments args nv) = CHR ''V''"
  "c_range (dsygvx_arguments args nv) = CHR ''I''"
  "c_uplo (dsygvx_arguments args nv) = CHR ''U''"
  "c_vl (dsygvx_arguments args nv) = 0"
  "c_vu (dsygvx_arguments args nv) = 0"
  "c_abstol (dsygvx_arguments args nv) = 1 / 100000"
  "c_lwork (dsygvx_arguments args nv) = 8 * nv"
  "c_n (dsygvx_arguments args nv) = arg_n args"
  "c_lda (dsygvx_arguments args nv) = arg_n args"
  "c_ldb (dsygvx_arguments args nv) = arg_n args"
  "c_iu (dsygvx_arguments args nv) = arg_n args"
  "c_ldz (dsygvx_arguments args nv) = arg_n args"
  "c_a (dsygvx_arguments args nv) = arg_a args"
  "c_b (dsygvx_arguments args nv) = arg_b args"
  "c_il (dsygvx_arguments args nv) = arg_il args"
  "c_m (dsygvx_arguments args nv) = arg_m args"
  "c_w (dsygvx_arguments args nv) = arg_w args"
  "c_z (dsygvx_arguments args nv) = arg_z args"
  "c_work (dsygvx_arguments args nv) = arg_work args"
  "c_iwork (dsygvx_arguments args nv) = arg_iwork args"
  "c_ifail (dsygvx_arguments args nv) = arg_ifail args"
  "c_info (dsygvx_arguments args nv) = arg_info args"
  by (simp_all add: dsygvx_arguments_def)

lemma on_buffers_dsygvx_arguments: "on_buffers (dsygvx_arguments args nv) args"
  by (simp add: on_buffers_def dsygvx_arguments_fields)

text \<open>Two routines that work within disjoint sets of cells commute.\<close>

lemma local_to_outside: "local_to f A \<Longrightarrow> k \<notin> A \<Longrightarrow> f m k = m k"
  by (simp add: local_to_def)

lemma local_to_inside:
  "local_to f A \<Longrightarrow> \<forall>j\<in>A. m j = m' j \<Longrightarrow> k \<in> A \<Longrightarrow> f m k = f m' k"
  unfolding local_to_def by blast

lemma local_to_commute:
  assumes f: "local_to f A" and g: "local_to g B" and disj: "A \<inter> B = {}"
  shows "f (g m) = g (f m)"
proof
  fix k
  consider "k \<in> A" "k \<notin> B" | "k \<in> B" "k \<notin> A" | "k \<notin> A" "k \<notin> B"
    using disj by blast
  then show "f (g m) k = g (f m) k"
  proof cases
    case 1
    have "\<forall>j\<in>A. g m j = m j"
    proof
      fix j
      assume "j \<in> A"
      with disj have "j \<notin> B" by blast
      with g show "g m j = m j" by (rule local_to_outside)
    qed
    with f have "f (g m) k = f m k"
      using 1(1) by (rule local_to_inside)
    also have "\<dots> = g (f m) k"
      using g 1(2) by (simp add: local_to_outside)
    finally show ?thesis .
  next
    case 2
    have "\<forall>j\<in>B. f m j = m j"
    proof
      fix j
      assume "j \<in> B"
      with disj have "j \<notin> A" by blast
      with f show "f m j = m j" by (rule local_to_outside)
    qed
    with g have "g (f m) k = g m k"
      using 2(1) by (rule local_to_inside)
    moreover have "f (g m) k = g m k"
      using f 2(2) by (simp add: local_to_outside)
    ultimately show ?thesis by simp
  next
    case 3
    then show ?thesis
      using f g by (simp add: local_to_outside)
  qed
qed

lemma dsygvx_stub_local:
  assumes "c_info c = Addr k" and "k \<in> A"
  shows "local_to (dsygvx_stub c) A"
  using assms by (auto simp add: local_to_def dsygvx_stub_def)

lemma dsygvx_stub_within:
  assumes "k \<notin> (\<Union>p\<in>set (pointer_arguments c). cell_of p)"
  shows "dsygvx_stub c m k = m k"
  using assms
  by (cases "c_info c") (auto simp add: dsygvx_stub_def pointer_arguments_def cell_of_def)

text \<open>Only the null pointer cannot be read.\<close>

lemma load_int_None_iff: "load_int m p = None \<longleftrightarrow> p = NULL"
  by (cases p) (simp_all add: load_int_def)

text \<open>The steps of an invocation in its two cases, and the pointers of its call.\<close>

lemma dsygvx_c_actions_unreadable:
  assumes "load_int (mem s) (arg_n args) = None"
  shows "dsygvx_c_actions args s =
     [Write_local Var_itype, Write_local Var_jobz, Write_local Var_range,
      Write_local Var_uplo, Write_local Var_vl, Write_local Var_vu, Write_local Var_abstol,
      Read (arg_n args)]"
  using assms by (simp add: dsygvx_c_actions_def)

lemma dsygvx_c_actions_readable:
  assumes "load_int (mem s) (arg_n args) = Some nv"
  shows "dsygvx_c_actions args s =
     [Write_local Var_itype, Write_local Var_jobz, Write_local Var_range,
      Write_local Var_uplo, Write_local Var_vl, Write_local Var_vu, Write_local Var_abstol,
      Read (arg_n args), Write_local Var_lwork, External (dsygvx_arguments args nv)]"
  using assms by (simp add: dsygvx_c_actions_def)

lemma pointer_arguments_dsygvx_arguments:
  "pointer_arguments (dsygvx_arguments args nv) =
     [arg_n args, arg_a args, arg_n args, arg_b args, arg_n args, arg_il args, arg_n args,
      arg_m args, arg_w args, arg_z args, arg_n args, arg_work args, arg_iwork args,
      arg_ifail args, arg_info args]"
  by (simp add: pointer_arguments_def dsygvx_arguments_fields)

lemma set_pointer_arguments_dsygvx_arguments:
  "set (pointer_arguments (dsygvx_arguments args nv)) = set (caller_pointers args)"
  unfolding pointer_arguments_dsygvx_arguments caller_pointers_def by auto

subsection \<open>The claims about the shim\<close>

text \<open>
  C1 as stated fails for a null \<^verbatim>\<open>n\<close>: the invocation faults at the read \<^verbatim>\<open>*n\<close> of line 23 and
  makes no call of the external routine, where the claim has exactly one.
\<close>

theorem dsygvx_c_no_call_counterexample:
  "arg_n args_null_n = NULL
   \<and> calls_made (dsygvx_c dsygvx_stub args_null_n (world_n 4)) = []"
proof -
  have n: "arg_n args_null_n = NULL"
    by (simp add: args_null_n_def)
  then have "dsygvx_c dsygvx_stub args_null_n (world_n 4) = Inl MemoryFault"
    by (intro dsygvx_c_unreadable) (simp add: load_int_world_n)
  with n show ?thesis
    by (simp add: calls_made_def)
qed

text \<open>
  C1, amended. Whenever \<^verbatim>\<open>n\<close> is not null, so that the \<^verbatim>\<open>int\<close> at \<^verbatim>\<open>n\<close> can be read, an
  invocation of \<^verbatim>\<open>dsygvx_c\<close> returns and makes
  exactly one call of the external routine: the record of calls grows by one entry. That
  call has problem type 1, \<^verbatim>\<open>jobz = 'V'\<close>, \<^verbatim>\<open>range = 'I'\<close>, \<^verbatim>\<open>uplo = 'U'\<close> and
  \<^verbatim>\<open>abstol = 1e-5\<close>; its \<^verbatim>\<open>iu\<close>, \<^verbatim>\<open>lda\<close>, \<^verbatim>\<open>ldb\<close> and \<^verbatim>\<open>ldz\<close> are the pointer \<^verbatim>\<open>n\<close> itself, so
  each of them reads as the dimension; and the eleven pointers of the caller are passed
  on as they came.
\<close>

theorem dsygvx_c_fixed_configuration:
  assumes "load_int (mem s) (arg_n args) = Some nv"
  shows "\<exists>c. dsygvx_c dsygvx args s = Inr \<lparr>mem = dsygvx c (mem s), calls = calls s @ [c]\<rparr>
           \<and> c_itype c = 1 \<and> c_jobz c = CHR ''V'' \<and> c_range c = CHR ''I''
           \<and> c_uplo c = CHR ''U'' \<and> c_abstol c = 1 / 100000
           \<and> c_iu c = arg_n args \<and> c_lda c = arg_n args \<and> c_ldb c = arg_n args
           \<and> c_ldz c = arg_n args
           \<and> load_int (mem s) (c_iu c) = Some nv \<and> load_int (mem s) (c_lda c) = Some nv
           \<and> load_int (mem s) (c_ldb c) = Some nv \<and> load_int (mem s) (c_ldz c) = Some nv
           \<and> c_n c = arg_n args \<and> c_a c = arg_a args \<and> c_b c = arg_b args
           \<and> c_il c = arg_il args \<and> c_m c = arg_m args \<and> c_w c = arg_w args
           \<and> c_z c = arg_z args \<and> c_work c = arg_work args \<and> c_iwork c = arg_iwork args
           \<and> c_ifail c = arg_ifail args \<and> c_info c = arg_info args"
  by (rule exI [of _ "dsygvx_arguments args nv"])
    (simp add: dsygvx_c_readable [OF assms] dsygvx_arguments_fields assms)

theorem dsygvx_c_fixed_configuration_witness:
  "load_int (mem (world_n 2)) (arg_n args0) = Some 2 \<and>
   (\<exists>c. dsygvx_c dsygvx_stub args0 (world_n 2) =
           Inr \<lparr>mem = dsygvx_stub c (mem (world_n 2)), calls = calls (world_n 2) @ [c]\<rparr>
      \<and> c_itype c = 1 \<and> c_jobz c = CHR ''V'' \<and> c_range c = CHR ''I''
      \<and> c_uplo c = CHR ''U'' \<and> c_abstol c = 1 / 100000
      \<and> c_iu c = Addr 0 \<and> c_lda c = Addr 0 \<and> c_ldb c = Addr 0 \<and> c_ldz c = Addr 0
      \<and> c_n c = Addr 0 \<and> c_a c = Addr 10 \<and> c_b c = Addr 20 \<and> c_il c = Addr 1
      \<and> c_m c = Addr 2 \<and> c_w c = Addr 30 \<and> c_z c = Addr 40 \<and> c_work c = Addr 50
      \<and> c_iwork c = Addr 70 \<and> c_ifail c = Addr 80 \<and> c_info c = Addr 3)"
proof -
  have h: "load_int (mem (world_n 2)) (arg_n args0) = Some 2"
    by (simp add: args0_def load_int_world_n)
  from dsygvx_c_fixed_configuration [OF h, of dsygvx_stub]
  obtain c where c: "dsygvx_c dsygvx_stub args0 (world_n 2) =
           Inr \<lparr>mem = dsygvx_stub c (mem (world_n 2)), calls = calls (world_n 2) @ [c]\<rparr>
      \<and> c_itype c = 1 \<and> c_jobz c = CHR ''V'' \<and> c_range c = CHR ''I''
      \<and> c_uplo c = CHR ''U'' \<and> c_abstol c = 1 / 100000
      \<and> c_iu c = arg_n args0 \<and> c_lda c = arg_n args0 \<and> c_ldb c = arg_n args0
      \<and> c_ldz c = arg_n args0
      \<and> c_n c = arg_n args0 \<and> c_a c = arg_a args0 \<and> c_b c = arg_b args0
      \<and> c_il c = arg_il args0 \<and> c_m c = arg_m args0 \<and> c_w c = arg_w args0
      \<and> c_z c = arg_z args0 \<and> c_work c = arg_work args0 \<and> c_iwork c = arg_iwork args0
      \<and> c_ifail c = arg_ifail args0 \<and> c_info c = arg_info args0"
    by blast
  have "arg_n args0 = Addr 0" "arg_a args0 = Addr 10" "arg_b args0 = Addr 20"
    "arg_il args0 = Addr 1" "arg_m args0 = Addr 2" "arg_w args0 = Addr 30"
    "arg_z args0 = Addr 40" "arg_work args0 = Addr 50" "arg_iwork args0 = Addr 70"
    "arg_ifail args0 = Addr 80" "arg_info args0 = Addr 3"
    by (simp_all add: args0_def)
  with c h show ?thesis
    by (intro conjI exI [of _ c]) simp_all
qed

text \<open>
  C3 as stated fails where the product leaves the range of \<^verbatim>\<open>int\<close>: for the dimension
  \<open>2 ^ 28\<close> the product \<open>8 * n\<close> is \<open>2 ^ 31\<close>, and the \<^verbatim>\<open>lwork\<close> passed is \<open>- (2 ^ 31)\<close>.
\<close>

theorem dsygvx_c_lwork_overflow_counterexample:
  "lwork_passed (dsygvx_c dsygvx_stub args0 (world_n 268435456)) = [- 2147483648]
   \<and> 8 * sint (268435456 :: c_int) = 2147483648"
proof -
  have h: "load_int (mem (world_n 268435456)) (arg_n args0) = Some 268435456"
    by (simp add: args0_def load_int_world_n)
  show ?thesis
    unfolding dsygvx_c_readable [OF h]
    by (simp add: lwork_passed_def dsygvx_arguments_fields world_n_def)
qed

text \<open>
  C3, amended. For every invocation whose dimension \<open>n\<close> has its product \<open>8 * n\<close> in the
  range of \<^verbatim>\<open>int\<close>, the \<^verbatim>\<open>lwork\<close> passed to the external routine is \<open>8 * n\<close>.
\<close>

theorem dsygvx_c_lwork_in_range:
  assumes "load_int (mem s) (arg_n args) = Some nv"
    and "- (2 ^ 31) \<le> 8 * sint nv" and "8 * sint nv < 2 ^ 31"
  shows "\<exists>c. dsygvx_c dsygvx args s = Inr \<lparr>mem = dsygvx c (mem s), calls = calls s @ [c]\<rparr>
           \<and> c_n c = arg_n args \<and> sint (c_lwork c) = 8 * sint nv"
proof -
  have "sint (8 * nv) = 8 * sint nv"
    using assms(2,3) by (simp add: sint_8_times signed_take_bit_int_eq_self_iff)
  then show ?thesis
    by (intro exI [of _ "dsygvx_arguments args nv"])
      (simp add: dsygvx_c_readable [OF assms(1)] dsygvx_arguments_fields)
qed

theorem dsygvx_c_lwork_in_range_witness:
  "load_int (mem (world_n 5)) (arg_n args0) = Some 5
   \<and> - (2 ^ 31) \<le> 8 * sint (5 :: c_int) \<and> 8 * sint (5 :: c_int) < 2 ^ 31
   \<and> (\<exists>c. dsygvx_c dsygvx_stub args0 (world_n 5) =
            Inr \<lparr>mem = dsygvx_stub c (mem (world_n 5)), calls = calls (world_n 5) @ [c]\<rparr>
          \<and> c_n c = arg_n args0 \<and> sint (c_lwork c) = 40)"
proof -
  have h: "load_int (mem (world_n 5)) (arg_n args0) = Some 5"
    by (simp add: args0_def load_int_world_n)
  have lo: "- (2 ^ 31) \<le> 8 * sint (5 :: c_int)" and hi: "8 * sint (5 :: c_int) < 2 ^ 31"
    by simp_all
  show ?thesis
    using h lo hi dsygvx_c_lwork_in_range [OF h lo hi, of dsygvx_stub] by simp
qed

text \<open>
  C4. The shim does nothing after the call: the world an invocation returns holds the
  memory exactly as the external routine left it, so the \<^verbatim>\<open>int\<close> at the \<^verbatim>\<open>info\<close> of the caller is
  the one the routine left at the \<^verbatim>\<open>info\<close> it was given, which is the same pointer. Whatever
  that status is, the routine has been called once and is not called again.
\<close>

theorem dsygvx_c_info_passthrough:
  assumes "load_int (mem s) (arg_n args) = Some nv"
  shows "\<exists>c r. dsygvx_c dsygvx args s = Inr r
           \<and> calls r = calls s @ [c]
           \<and> c_info c = arg_info args
           \<and> mem r = dsygvx c (mem s)
           \<and> load_int (mem r) (arg_info args) = load_int (dsygvx c (mem s)) (c_info c)"
  by (intro exI [of _ "dsygvx_arguments args nv"]
      exI [of _ "\<lparr>mem = dsygvx (dsygvx_arguments args nv) (mem s),
                  calls = calls s @ [dsygvx_arguments args nv]\<rparr>"])
    (simp add: dsygvx_c_readable [OF assms] dsygvx_arguments_fields)

theorem dsygvx_c_info_passthrough_witness:
  "load_int (mem (world_n 2)) (arg_n args0) = Some 2
   \<and> load_int (mem (world_n 2)) (Addr 3) = Some 0
   \<and> (\<exists>c r. dsygvx_c dsygvx_stub args0 (world_n 2) = Inr r
          \<and> calls r = [c] \<and> c_info c = Addr 3
          \<and> load_int (mem r) (Addr 3) = Some 3)"
proof -
  have h: "load_int (mem (world_n 2)) (arg_n args0) = Some 2"
    by (simp add: args0_def load_int_world_n)
  have before: "load_int (mem (world_n 2)) (Addr 3) = Some 0"
    by (simp add: load_int_def world_n_def mem_n_def)
  from dsygvx_c_info_passthrough [OF h, of dsygvx_stub]
  obtain c r where cr: "dsygvx_c dsygvx_stub args0 (world_n 2) = Inr r"
    "calls r = calls (world_n 2) @ [c]" "c_info c = arg_info args0"
    "load_int (mem r) (arg_info args0) = load_int (dsygvx_stub c (mem (world_n 2))) (c_info c)"
    by blast
  have i: "arg_info args0 = Addr 3"
    by (simp add: args0_def)
  have "load_int (dsygvx_stub c (mem (world_n 2))) (c_info c) = Some 3"
    using cr(3) by (simp add: i dsygvx_stub_def load_int_def)
  with cr i h before show ?thesis
    by (intro conjI exI [of _ c] exI [of _ r]) (simp_all add: world_n_def)
qed




text \<open>
  C7. The steps of an invocation, replayed on the world of the caller and on any heap, give
  the outcome of \<^verbatim>\<open>dsygvx_c\<close> and leave the heap as it was. None of the steps takes a block
  from the heap or gives one back, and none writes through a pointer: the shim writes its
  own local variables only, and its one access to the memory of the caller is the read
  \<^verbatim>\<open>*n\<close>. There is at most one call of the external routine, and each of the fifteen
  pointers it is given is one of the eleven the caller supplied. So the memory an
  invocation returns is the memory the routine left, and where the routine writes only
  within the buffers of the pointers it is given, every cell outside the buffers the caller
  supplied is as it was.
\<close>

theorem dsygvx_c_frame:
  "replay dsygvx (dsygvx_c_actions args s) (s, H) =
     (case dsygvx_c dsygvx args s of Inl e \<Rightarrow> Inl e | Inr r \<Rightarrow> Inr (r, H))
   \<and> heap_steps (dsygvx_c_actions args s) = []
   \<and> writes (dsygvx_c_actions args s) = []
   \<and> reads (dsygvx_c_actions args s) = [arg_n args]
   \<and> local_writes (dsygvx_c_actions args s) =
       [Var_itype, Var_jobz, Var_range, Var_uplo, Var_vl, Var_vu, Var_abstol]
       @ (if arg_n args = NULL then [] else [Var_lwork])
   \<and> length (externals (dsygvx_c_actions args s)) \<le> 1
   \<and> (\<forall>c\<in>set (externals (dsygvx_c_actions args s)).
        pointer_arguments c =
          [arg_n args, arg_a args, arg_n args, arg_b args, arg_n args, arg_il args,
           arg_n args, arg_m args, arg_w args, arg_z args, arg_n args, arg_work args,
           arg_iwork args, arg_ifail args, arg_info args]
        \<and> set (pointer_arguments c) = set (caller_pointers args))
   \<and> (\<forall>r. dsygvx_c dsygvx args s = Inr r \<longrightarrow>
        (\<exists>c. externals (dsygvx_c_actions args s) = [c]
           \<and> calls r = calls s @ [c]
           \<and> mem r = dsygvx c (mem s)
           \<and> ((\<forall>k. k \<notin> (\<Union>p\<in>set (pointer_arguments c). extent p) \<longrightarrow>
                    dsygvx c (mem s) k = mem s k)
                \<longrightarrow> (\<forall>k. k \<notin> (\<Union>p\<in>set (caller_pointers args). extent p) \<longrightarrow>
                        mem r k = mem s k))))"
proof (cases "load_int (mem s) (arg_n args)")
  case None
  then have null: "arg_n args = NULL"
    by (simp add: load_int_None_iff)
  have fault: "dsygvx_c dsygvx args s = Inl MemoryFault"
    using None by (rule dsygvx_c_unreadable)
  have steps: "dsygvx_c_actions args s =
     [Write_local Var_itype, Write_local Var_jobz, Write_local Var_range,
      Write_local Var_uplo, Write_local Var_vl, Write_local Var_vu, Write_local Var_abstol,
      Read (arg_n args)]"
    using None by (rule dsygvx_c_actions_unreadable)
  show ?thesis
    unfolding steps fault
    using None null
    by (simp add: heap_steps_def writes_def reads_def local_writes_def externals_def)
next
  case (Some nv)
  then have not_null: "arg_n args \<noteq> NULL"
    using load_int_None_iff [of "mem s" "arg_n args"] by simp
  let ?c = "dsygvx_arguments args nv"
  have ret: "dsygvx_c dsygvx args s =
      Inr \<lparr>mem = dsygvx ?c (mem s), calls = calls s @ [?c]\<rparr>"
    using Some by (rule dsygvx_c_readable)
  have steps: "dsygvx_c_actions args s =
     [Write_local Var_itype, Write_local Var_jobz, Write_local Var_range,
      Write_local Var_uplo, Write_local Var_vl, Write_local Var_vu, Write_local Var_abstol,
      Read (arg_n args), Write_local Var_lwork, External ?c]"
    using Some by (rule dsygvx_c_actions_readable)
  have ext: "externals (dsygvx_c_actions args s) = [?c]"
    unfolding steps by (simp add: externals_def)
  have tie: "replay dsygvx (dsygvx_c_actions args s) (s, H) =
     (case dsygvx_c dsygvx args s of Inl e \<Rightarrow> Inl e | Inr r \<Rightarrow> Inr (r, H))"
    unfolding steps ret using Some by (simp add: F77_CALL_dsygvx_def)
  have kinds: "heap_steps (dsygvx_c_actions args s) = []"
    "writes (dsygvx_c_actions args s) = []"
    "reads (dsygvx_c_actions args s) = [arg_n args]"
    "local_writes (dsygvx_c_actions args s) =
       [Var_itype, Var_jobz, Var_range, Var_uplo, Var_vl, Var_vu, Var_abstol]
       @ (if arg_n args = NULL then [] else [Var_lwork])"
    unfolding steps using not_null
    by (simp_all add: heap_steps_def writes_def reads_def local_writes_def)
  have ptrs: "\<forall>c\<in>set (externals (dsygvx_c_actions args s)).
        pointer_arguments c =
          [arg_n args, arg_a args, arg_n args, arg_b args, arg_n args, arg_il args,
           arg_n args, arg_m args, arg_w args, arg_z args, arg_n args, arg_work args,
           arg_iwork args, arg_ifail args, arg_info args]
        \<and> set (pointer_arguments c) = set (caller_pointers args)"
    unfolding ext
    using pointer_arguments_dsygvx_arguments [of args nv]
      set_pointer_arguments_dsygvx_arguments [of args nv]
    by simp
  have frame: "\<forall>r. dsygvx_c dsygvx args s = Inr r \<longrightarrow>
        (\<exists>c. externals (dsygvx_c_actions args s) = [c]
           \<and> calls r = calls s @ [c]
           \<and> mem r = dsygvx c (mem s)
           \<and> ((\<forall>k. k \<notin> (\<Union>p\<in>set (pointer_arguments c). extent p) \<longrightarrow>
                    dsygvx c (mem s) k = mem s k)
                \<longrightarrow> (\<forall>k. k \<notin> (\<Union>p\<in>set (caller_pointers args). extent p) \<longrightarrow>
                        mem r k = mem s k)))"
  proof (intro allI impI)
    fix r
    assume "dsygvx_c dsygvx args s = Inr r"
    with ret have r: "r = \<lparr>mem = dsygvx ?c (mem s), calls = calls s @ [?c]\<rparr>"
      by simp
    have "(\<forall>k. k \<notin> (\<Union>p\<in>set (pointer_arguments ?c). extent p) \<longrightarrow>
                    dsygvx ?c (mem s) k = mem s k)
          \<longrightarrow> (\<forall>k. k \<notin> (\<Union>p\<in>set (caller_pointers args). extent p) \<longrightarrow>
                  mem r k = mem s k)"
      unfolding set_pointer_arguments_dsygvx_arguments by (simp add: r)
    with ext r show "\<exists>c. externals (dsygvx_c_actions args s) = [c]
           \<and> calls r = calls s @ [c]
           \<and> mem r = dsygvx c (mem s)
           \<and> ((\<forall>k. k \<notin> (\<Union>p\<in>set (pointer_arguments c). extent p) \<longrightarrow>
                    dsygvx c (mem s) k = mem s k)
                \<longrightarrow> (\<forall>k. k \<notin> (\<Union>p\<in>set (caller_pointers args). extent p) \<longrightarrow>
                        mem r k = mem s k))"
      by (intro exI [of _ ?c]) simp
  qed
  have one: "length (externals (dsygvx_c_actions args s)) \<le> 1"
    by (simp add: ext)
  show ?thesis
    apply (intro conjI)
           apply (fact tie)
          apply (fact kinds(1))
         apply (fact kinds(2))
        apply (fact kinds(3))
       apply (fact kinds(4))
      apply (fact one)
     apply (fact ptrs)
    apply (fact frame)
    done
qed

theorem dsygvx_c_frame_witness:
  "heap_steps (dsygvx_c_actions args0 (world_n 2)) = []
   \<and> writes (dsygvx_c_actions args0 (world_n 2)) = []
   \<and> reads (dsygvx_c_actions args0 (world_n 2)) = [Addr 0]
   \<and> (\<exists>r c. dsygvx_c dsygvx_stub args0 (world_n 2) = Inr r
          \<and> replay dsygvx_stub (dsygvx_c_actions args0 (world_n 2)) (world_n 2, {7}) =
              Inr (r, {7})
          \<and> externals (dsygvx_c_actions args0 (world_n 2)) = [c]
          \<and> calls r = [c]
          \<and> c_lda c = Addr 0 \<and> c_info c = Addr 3
          \<and> mem r 3 = 3 \<and> mem r 4 = 0 \<and> mem r 100 = 2)"
proof -
  note frame = dsygvx_c_frame [of dsygvx_stub args0 "world_n 2" "{7}" cell_of]
  have h: "load_int (mem (world_n 2)) (arg_n args0) = Some 2"
    by (simp add: args0_def load_int_world_n)
  obtain r where r: "dsygvx_c dsygvx_stub args0 (world_n 2) = Inr r"
    using dsygvx_c_readable [OF h] by blast
  from frame r have tie: "replay dsygvx_stub (dsygvx_c_actions args0 (world_n 2))
      (world_n 2, {7}) = Inr (r, {7})"
    by simp
  from frame have kinds: "heap_steps (dsygvx_c_actions args0 (world_n 2)) = []"
    "writes (dsygvx_c_actions args0 (world_n 2)) = []"
    "reads (dsygvx_c_actions args0 (world_n 2)) = [arg_n args0]"
    by blast+
  from frame r obtain c where c: "externals (dsygvx_c_actions args0 (world_n 2)) = [c]"
    "calls r = calls (world_n 2) @ [c]" "mem r = dsygvx_stub c (mem (world_n 2))"
    "(\<forall>k. k \<notin> (\<Union>p\<in>set (pointer_arguments c). cell_of p) \<longrightarrow>
         dsygvx_stub c (mem (world_n 2)) k = mem (world_n 2) k)
       \<longrightarrow> (\<forall>k. k \<notin> (\<Union>p\<in>set (caller_pointers args0). cell_of p) \<longrightarrow>
               mem r k = mem (world_n 2) k)"
    by blast
  from frame c(1) have "pointer_arguments c =
      [arg_n args0, arg_a args0, arg_n args0, arg_b args0, arg_n args0, arg_il args0,
       arg_n args0, arg_m args0, arg_w args0, arg_z args0, arg_n args0, arg_work args0,
       arg_iwork args0, arg_ifail args0, arg_info args0]"
    by simp
  then have p: "c_lda c = Addr 0" "c_info c = Addr 3"
    by (simp_all add: pointer_arguments_def args0_def)
  have outside: "\<forall>k. k \<notin> (\<Union>p\<in>set (caller_pointers args0). cell_of p) \<longrightarrow>
      mem r k = mem (world_n 2) k"
    using c(4) by (simp add: dsygvx_stub_within)
  have "(4::nat) \<notin> (\<Union>p\<in>set (caller_pointers args0). cell_of p)"
    "(100::nat) \<notin> (\<Union>p\<in>set (caller_pointers args0). cell_of p)"
    by (simp_all add: caller_pointers_def args0_def cell_of_def)
  with outside have "mem r 4 = mem (world_n 2) 4" "mem r 100 = mem (world_n 2) 100"
    by blast+
  then have cells: "mem r 4 = 0" "mem r 100 = 2"
    by (simp_all add: world_n_def mem_n_def)
  have info: "mem r 3 = 3"
    by (simp add: c(3) p(2) dsygvx_stub_def)
  have n: "arg_n args0 = Addr 0"
    by (simp add: args0_def)
  have "calls r = [c]"
    using c(2) by (simp add: world_n_def)
  with r tie c(1) p cells info
  have "\<exists>r c. dsygvx_c dsygvx_stub args0 (world_n 2) = Inr r
          \<and> replay dsygvx_stub (dsygvx_c_actions args0 (world_n 2)) (world_n 2, {7}) =
              Inr (r, {7})
          \<and> externals (dsygvx_c_actions args0 (world_n 2)) = [c]
          \<and> calls r = [c]
          \<and> c_lda c = Addr 0 \<and> c_info c = Addr 3
          \<and> mem r 3 = 3 \<and> mem r 4 = 0 \<and> mem r 100 = 2"
    by (intro exI [of _ r] exI [of _ c]) simp
  with kinds n show ?thesis
    by simp
qed

text \<open>
  C8. The workspace length is the product \<^verbatim>\<open>8 * (*n)\<close> of 32-bit integers. Where
  \<open>0 \<le> 8 * n \<le> INT_MAX\<close> the \<^verbatim>\<open>lwork\<close> passed is \<open>8 * n\<close> exactly; where \<open>8 * n\<close> is above
  \<^verbatim>\<open>INT_MAX\<close> it is not the product but the \<^verbatim>\<open>int\<close> congruent to it modulo \<open>2 ^ 32\<close>.
\<close>

theorem dsygvx_c_lwork_wraps:
  assumes "load_int (mem s) (arg_n args) = Some nv"
  shows "\<exists>c. dsygvx_c dsygvx args s = Inr \<lparr>mem = dsygvx c (mem s), calls = calls s @ [c]\<rparr>
           \<and> c_lwork c = 8 * nv
           \<and> (0 \<le> 8 * sint nv \<and> 8 * sint nv \<le> 2147483647 \<longrightarrow>
                sint (c_lwork c) = 8 * sint nv)
           \<and> (2147483647 < 8 * sint nv \<longrightarrow>
                sint (c_lwork c) \<noteq> 8 * sint nv
                \<and> sint (c_lwork c) mod 2 ^ 32 = (8 * sint nv) mod 2 ^ 32
                \<and> - (2 ^ 31) \<le> sint (c_lwork c) \<and> sint (c_lwork c) \<le> 2147483647)"
proof -
  have small: "sint (8 * nv) = 8 * sint nv"
    if "0 \<le> 8 * sint nv \<and> 8 * sint nv \<le> 2147483647"
    using that by (simp add: sint_8_times signed_take_bit_int_eq_self_iff)
  have large: "sint (8 * nv) \<noteq> 8 * sint nv" if "2147483647 < 8 * sint nv"
    using that by (simp add: sint_8_times signed_take_bit_int_eq_self_iff)
  have cong: "sint (8 * nv) mod 2 ^ 32 = (8 * sint nv) mod 2 ^ 32"
    by (simp only: sint_8_times signed_take_bit_31_cong)
  have range: "- (2 ^ 31) \<le> sint (8 * nv) \<and> sint (8 * nv) \<le> 2147483647"
    using sint_ge [of "8 * nv"] sint_lt [of "8 * nv"] by simp
  have "dsygvx_c dsygvx args s =
      Inr \<lparr>mem = dsygvx (dsygvx_arguments args nv) (mem s),
           calls = calls s @ [dsygvx_arguments args nv]\<rparr>"
    by (rule dsygvx_c_readable [OF assms])
  moreover have "c_lwork (dsygvx_arguments args nv) = 8 * nv"
    by (simp add: dsygvx_arguments_fields)
  ultimately show ?thesis
    using small large cong range
    by (intro exI [of _ "dsygvx_arguments args nv"]) simp
qed

theorem dsygvx_c_lwork_wraps_witness:
  "load_int (mem (world_n 3)) (arg_n args0) = Some 3
   \<and> load_int (mem (world_n 268435457)) (arg_n args0) = Some 268435457
   \<and> 0 \<le> 8 * sint (3 :: c_int) \<and> 8 * sint (3 :: c_int) \<le> 2147483647
   \<and> 2147483647 < 8 * sint (268435457 :: c_int)
   \<and> lwork_passed (dsygvx_c dsygvx_stub args0 (world_n 3)) = [24]
   \<and> lwork_passed (dsygvx_c dsygvx_stub args0 (world_n 268435457)) = [- 2147483640]"
proof -
  have h1: "load_int (mem (world_n 3)) (arg_n args0) = Some 3"
    and h2: "load_int (mem (world_n 268435457)) (arg_n args0) = Some 268435457"
    by (simp_all add: args0_def load_int_world_n)
  from dsygvx_c_lwork_wraps [OF h1, of dsygvx_stub]
  have "lwork_passed (dsygvx_c dsygvx_stub args0 (world_n 3)) = [24]"
    by (auto simp add: lwork_passed_def world_n_def)
  moreover from dsygvx_c_lwork_wraps [OF h2, of dsygvx_stub]
  have "lwork_passed (dsygvx_c dsygvx_stub args0 (world_n 268435457)) = [- 2147483640]"
    by (auto simp add: lwork_passed_def world_n_def)
  ultimately show ?thesis
    using h1 h2 by simp
qed

text \<open>
  C6. The shim keeps nothing between invocations. The call an invocation makes is
  determined by its eleven pointers and the value at \<^verbatim>\<open>n\<close>: from any world, with any calls
  made before and any routine, the same pointers and the same value at \<^verbatim>\<open>n\<close> give the same
  call. And where the external routine works within the buffers it is given, two
  invocations on disjoint sets of buffers can be made in either order: each makes the same
  call, the memory at the end is the same, and each set of buffers holds what its
  invocation alone would have left there.
\<close>

theorem dsygvx_c_stateless:
  assumes n1: "load_int (mem s) (arg_n a1) = Some v1"
    and n2: "load_int (mem s) (arg_n a2) = Some v2"
    and k1: "arg_n a1 = Addr k1" "k1 \<in> A1"
    and k2: "arg_n a2 = Addr k2" "k2 \<in> A2"
    and disj: "A1 \<inter> A2 = {}"
    and l1: "\<forall>c. on_buffers c a1 \<longrightarrow> local_to (dsygvx c) A1"
    and l2: "\<forall>c. on_buffers c a2 \<longrightarrow> local_to (dsygvx c) A2"
  shows "\<exists>c1 c2.
     on_buffers c1 a1 \<and> on_buffers c2 a2
     \<and> (\<forall>s' f. load_int (mem s') (arg_n a1) = Some v1 \<longrightarrow>
           dsygvx_c f a1 s' = Inr \<lparr>mem = f c1 (mem s'), calls = calls s' @ [c1]\<rparr>)
     \<and> (\<forall>s' f. load_int (mem s') (arg_n a2) = Some v2 \<longrightarrow>
           dsygvx_c f a2 s' = Inr \<lparr>mem = f c2 (mem s'), calls = calls s' @ [c2]\<rparr>)
     \<and> (case dsygvx_c dsygvx a1 s of Inl e \<Rightarrow> Inl e | Inr w \<Rightarrow> dsygvx_c dsygvx a2 w) =
         Inr \<lparr>mem = dsygvx c2 (dsygvx c1 (mem s)), calls = calls s @ [c1, c2]\<rparr>
     \<and> (case dsygvx_c dsygvx a2 s of Inl e \<Rightarrow> Inl e | Inr w \<Rightarrow> dsygvx_c dsygvx a1 w) =
         Inr \<lparr>mem = dsygvx c1 (dsygvx c2 (mem s)), calls = calls s @ [c2, c1]\<rparr>
     \<and> dsygvx c2 (dsygvx c1 (mem s)) = dsygvx c1 (dsygvx c2 (mem s))
     \<and> (\<forall>k\<in>A1. dsygvx c2 (dsygvx c1 (mem s)) k = dsygvx c1 (mem s) k)
     \<and> (\<forall>k\<in>A2. dsygvx c2 (dsygvx c1 (mem s)) k = dsygvx c2 (mem s) k)"
proof -
  define c1 where "c1 = dsygvx_arguments a1 v1"
  define c2 where "c2 = dsygvx_arguments a2 v2"
  have b1: "on_buffers c1 a1" and b2: "on_buffers c2 a2"
    by (simp_all add: c1_def c2_def on_buffers_dsygvx_arguments)
  have loc1: "local_to (dsygvx c1) A1" and loc2: "local_to (dsygvx c2) A2"
    using l1 l2 b1 b2 by blast+
  have out1: "k2 \<notin> A1" and out2: "k1 \<notin> A2"
    using k1(2) k2(2) disj by blast+
  have det1: "dsygvx_c f a1 s' = Inr \<lparr>mem = f c1 (mem s'), calls = calls s' @ [c1]\<rparr>"
    if "load_int (mem s') (arg_n a1) = Some v1" for s' f
    unfolding c1_def using that by (rule dsygvx_c_readable)
  have det2: "dsygvx_c f a2 s' = Inr \<lparr>mem = f c2 (mem s'), calls = calls s' @ [c2]\<rparr>"
    if "load_int (mem s') (arg_n a2) = Some v2" for s' f
    unfolding c2_def using that by (rule dsygvx_c_readable)
  have "dsygvx c1 (mem s) k2 = mem s k2"
    using loc1 out1 by (rule local_to_outside)
  then have "load_int (dsygvx c1 (mem s)) (Addr k2) = load_int (mem s) (Addr k2)"
    by (rule load_int_cell)
  with n2 have after1: "load_int (dsygvx c1 (mem s)) (arg_n a2) = Some v2"
    by (simp add: k2(1))
  have "dsygvx c2 (mem s) k1 = mem s k1"
    using loc2 out2 by (rule local_to_outside)
  then have "load_int (dsygvx c2 (mem s)) (Addr k1) = load_int (mem s) (Addr k1)"
    by (rule load_int_cell)
  with n1 have after2: "load_int (dsygvx c2 (mem s)) (arg_n a1) = Some v1"
    by (simp add: k1(1))
  have o12: "(case dsygvx_c dsygvx a1 s of Inl e \<Rightarrow> Inl e | Inr w \<Rightarrow> dsygvx_c dsygvx a2 w) =
         Inr \<lparr>mem = dsygvx c2 (dsygvx c1 (mem s)), calls = calls s @ [c1, c2]\<rparr>"
    using after1 by (simp add: det1 [OF n1] det2)
  have o21: "(case dsygvx_c dsygvx a2 s of Inl e \<Rightarrow> Inl e | Inr w \<Rightarrow> dsygvx_c dsygvx a1 w) =
         Inr \<lparr>mem = dsygvx c1 (dsygvx c2 (mem s)), calls = calls s @ [c2, c1]\<rparr>"
    using after2 by (simp add: det2 [OF n2] det1)
  have comm: "dsygvx c2 (dsygvx c1 (mem s)) = dsygvx c1 (dsygvx c2 (mem s))"
    using loc2 loc1 by (rule local_to_commute) (use disj in blast)
  have in1: "\<forall>k\<in>A1. dsygvx c2 (dsygvx c1 (mem s)) k = dsygvx c1 (mem s) k"
  proof
    fix k
    assume "k \<in> A1"
    with disj have "k \<notin> A2" by blast
    with loc2 show "dsygvx c2 (dsygvx c1 (mem s)) k = dsygvx c1 (mem s) k"
      by (rule local_to_outside)
  qed
  have in2: "\<forall>k\<in>A2. dsygvx c2 (dsygvx c1 (mem s)) k = dsygvx c2 (mem s) k"
  proof
    fix k
    assume "k \<in> A2"
    with disj have "k \<notin> A1" by blast
    with loc1 have "dsygvx c1 (dsygvx c2 (mem s)) k = dsygvx c2 (mem s) k"
      by (rule local_to_outside)
    then show "dsygvx c2 (dsygvx c1 (mem s)) k = dsygvx c2 (mem s) k"
      by (simp add: comm)
  qed
  have d1: "\<forall>s' f. load_int (mem s') (arg_n a1) = Some v1 \<longrightarrow>
      dsygvx_c f a1 s' = Inr \<lparr>mem = f c1 (mem s'), calls = calls s' @ [c1]\<rparr>"
    using det1 by blast
  have d2: "\<forall>s' f. load_int (mem s') (arg_n a2) = Some v2 \<longrightarrow>
      dsygvx_c f a2 s' = Inr \<lparr>mem = f c2 (mem s'), calls = calls s' @ [c2]\<rparr>"
    using det2 by blast
  show ?thesis
    apply (rule exI [of _ c1], rule exI [of _ c2])
    apply (intro conjI)
            apply (fact b1)
           apply (fact b2)
          apply (fact d1)
         apply (fact d2)
        apply (fact o12)
       apply (fact o21)
      apply (fact comm)
     apply (fact in1)
    apply (fact in2)
    done
qed

theorem dsygvx_c_stateless_witness:
  "load_int (mem (world_n 2)) (arg_n args0) = Some 2
   \<and> load_int (mem (world_n 2)) (arg_n args1) = Some 2
   \<and> arg_n args0 = Addr 0 \<and> 0 \<in> {0..<100::nat}
   \<and> arg_n args1 = Addr 100 \<and> 100 \<in> {100..<200::nat}
   \<and> {0..<100} \<inter> {100..<200} = ({} :: nat set)
   \<and> local_to (dsygvx_stub (dsygvx_arguments args0 2)) {0..<100}
   \<and> local_to (dsygvx_stub (dsygvx_arguments args1 2)) {100..<200}
   \<and> (\<exists>c1 c2 m.
        (case dsygvx_c dsygvx_stub args0 (world_n 2) of
           Inl e \<Rightarrow> Inl e | Inr w \<Rightarrow> dsygvx_c dsygvx_stub args1 w) =
          Inr \<lparr>mem = m, calls = [c1, c2]\<rparr>
      \<and> (case dsygvx_c dsygvx_stub args1 (world_n 2) of
           Inl e \<Rightarrow> Inl e | Inr w \<Rightarrow> dsygvx_c dsygvx_stub args0 w) =
          Inr \<lparr>mem = m, calls = [c2, c1]\<rparr>
      \<and> c_info c1 = Addr 3 \<and> c_info c2 = Addr 103)"
proof -
  have n1: "load_int (mem (world_n 2)) (arg_n args0) = Some 2"
    and n2: "load_int (mem (world_n 2)) (arg_n args1) = Some 2"
    by (simp_all add: args0_def args1_def load_int_world_n)
  have k1: "arg_n args0 = Addr 0" "0 \<in> {0..<100::nat}"
    and k2: "arg_n args1 = Addr 100" "100 \<in> {100..<200::nat}"
    by (simp_all add: args0_def args1_def)
  have disj: "{0..<100} \<inter> {100..<200} = ({} :: nat set)"
    by simp
  have l1: "\<forall>c. on_buffers c args0 \<longrightarrow> local_to (dsygvx_stub c) {0..<100}"
    by (simp add: on_buffers_def args0_def dsygvx_stub_local [of _ 3])
  have l2: "\<forall>c. on_buffers c args1 \<longrightarrow> local_to (dsygvx_stub c) {100..<200}"
    by (simp add: on_buffers_def args1_def dsygvx_stub_local [of _ 103])
  from dsygvx_c_stateless [OF n1 n2 k1 k2 disj l1 l2]
  obtain c1 c2 where c: "on_buffers c1 args0" "on_buffers c2 args1"
    "(case dsygvx_c dsygvx_stub args0 (world_n 2) of
        Inl e \<Rightarrow> Inl e | Inr w \<Rightarrow> dsygvx_c dsygvx_stub args1 w) =
       Inr \<lparr>mem = dsygvx_stub c2 (dsygvx_stub c1 (mem (world_n 2))),
            calls = calls (world_n 2) @ [c1, c2]\<rparr>"
    "(case dsygvx_c dsygvx_stub args1 (world_n 2) of
        Inl e \<Rightarrow> Inl e | Inr w \<Rightarrow> dsygvx_c dsygvx_stub args0 w) =
       Inr \<lparr>mem = dsygvx_stub c1 (dsygvx_stub c2 (mem (world_n 2))),
            calls = calls (world_n 2) @ [c2, c1]\<rparr>"
    "dsygvx_stub c2 (dsygvx_stub c1 (mem (world_n 2))) =
       dsygvx_stub c1 (dsygvx_stub c2 (mem (world_n 2)))"
    by (elim exE conjE) (rule that, assumption+)
  have i: "c_info c1 = Addr 3" "c_info c2 = Addr 103"
    using c(1,2) by (simp_all add: on_buffers_def args0_def args1_def)
  have loc: "local_to (dsygvx_stub (dsygvx_arguments args0 2)) {0..<100}"
    "local_to (dsygvx_stub (dsygvx_arguments args1 2)) {100..<200}"
    using l1 l2 on_buffers_dsygvx_arguments by blast+
  have "\<exists>m. (case dsygvx_c dsygvx_stub args0 (world_n 2) of
           Inl e \<Rightarrow> Inl e | Inr w \<Rightarrow> dsygvx_c dsygvx_stub args1 w) =
          Inr \<lparr>mem = m, calls = [c1, c2]\<rparr>
      \<and> (case dsygvx_c dsygvx_stub args1 (world_n 2) of
           Inl e \<Rightarrow> Inl e | Inr w \<Rightarrow> dsygvx_c dsygvx_stub args0 w) =
          Inr \<lparr>mem = m, calls = [c2, c1]\<rparr>"
    using c(3,4,5) by (simp add: world_n_def)
  with i have "\<exists>c1 c2 m.
        (case dsygvx_c dsygvx_stub args0 (world_n 2) of
           Inl e \<Rightarrow> Inl e | Inr w \<Rightarrow> dsygvx_c dsygvx_stub args1 w) =
          Inr \<lparr>mem = m, calls = [c1, c2]\<rparr>
      \<and> (case dsygvx_c dsygvx_stub args1 (world_n 2) of
           Inl e \<Rightarrow> Inl e | Inr w \<Rightarrow> dsygvx_c dsygvx_stub args0 w) =
          Inr \<lparr>mem = m, calls = [c2, c1]\<rparr>
      \<and> c_info c1 = Addr 3 \<and> c_info c2 = Addr 103"
    by blast
  with n1 n2 k1 k2 disj loc show ?thesis
    by simp
qed

section \<open>Properties of the registration\<close>

lemma routines_CEntries:
  "routines CEntries =
     [\<lparr>name = Some ''dsygvx_c'', func = Some (FunAddr ''dsygvx_c''), numArgs = 11\<rparr>]"
  by (simp add: routines_def CEntries_def)

lemma R_init_linproj_fields:
  "useDynamicSymbols (R_init_linproj dll) = False"
  "CSymbols (R_init_linproj dll) = routines CEntries"
  "CallSymbols (R_init_linproj dll) = CallSymbols dll"
  "FortranSymbols (R_init_linproj dll) = FortranSymbols dll"
  "ExternalSymbols (R_init_linproj dll) = ExternalSymbols dll"
  "handle (R_init_linproj dll) = handle dll"
  by (simp_all add: R_init_linproj_def R_registerRoutines_def R_useDynamicSymbols_def)

lemma dsygvx_c_positional_length:
  "dsygvx_c_positional ps \<noteq> None \<longleftrightarrow> length ps = 11"
  by (cases ps rule: dsygvx_c_positional.cases) simp_all

text \<open>
  What the initialisation changes, on the symbols of \<^const>\<open>linproj_so\<close>: before it the
  name of the initialisation function itself resolves through the shared object, after
  it that name does not resolve.
\<close>

lemma R_dlsym_before_and_after:
  "R_dlsym (loaded linproj_so) R_C_SYM ''R_init_linproj'' = Some (FunAddr ''R_init_linproj'')"
  "R_dlsym (R_init_linproj (loaded linproj_so)) R_C_SYM ''R_init_linproj'' = None"
  by (simp_all add: R_dlsym_def symbols_of_def R_init_linproj_fields routines_CEntries
      loaded_def linproj_so_def)

text \<open>
  C2. The table has one entry before its null terminator: the name \<^verbatim>\<open>dsygvx_c\<close>, the address
  of the shim and the arity 11. The arity is the number of positional arguments that fit the
  signature of the shim, which takes them in the order \<^verbatim>\<open>n\<close>, \<^verbatim>\<open>a\<close>, \<^verbatim>\<open>b\<close>, \<^verbatim>\<open>il\<close>, \<^verbatim>\<open>m\<close>, \<^verbatim>\<open>w\<close>,
  \<^verbatim>\<open>z\<close>, \<^verbatim>\<open>work\<close>, \<^verbatim>\<open>iwork\<close>, \<^verbatim>\<open>ifail\<close>, \<^verbatim>\<open>info\<close>. After the initialisation, whatever the
  module held before, the routines registered for \<^verbatim>\<open>.C\<close> are those of the table, the lookup of
  unregistered symbols is off, and a name resolves for \<^verbatim>\<open>.C\<close> only if it is \<^verbatim>\<open>dsygvx_c\<close>, also
  when the shared object exports other symbols.
\<close>

theorem CEntries_single_entry:
  "routines CEntries =
     [\<lparr>name = Some ''dsygvx_c'', func = Some (FunAddr ''dsygvx_c''), numArgs = 11\<rparr>]
   \<and> length CEntries = 2 \<and> name (last CEntries) = None
   \<and> (dsygvx_c_positional ps \<noteq> None) = (int (length ps) = numArgs (hd (routines CEntries)))
   \<and> dsygvx_c_positional [p1, p2, p3, p4, p5, p6, p7, p8, p9, p10, p11] =
       Some \<lparr>arg_n = p1, arg_a = p2, arg_b = p3, arg_il = p4, arg_m = p5, arg_w = p6,
             arg_z = p7, arg_work = p8, arg_iwork = p9, arg_ifail = p10, arg_info = p11\<rparr>
   \<and> CSymbols (R_init_linproj dll) = routines CEntries
   \<and> useDynamicSymbols (R_init_linproj dll) = False
   \<and> R_dlsym (R_init_linproj dll) R_C_SYM s =
       (if s = ''dsygvx_c'' then Some (FunAddr ''dsygvx_c'') else None)"
proof -
  have arity: "(dsygvx_c_positional ps \<noteq> None) =
      (int (length ps) = numArgs (hd (routines CEntries)))"
    unfolding dsygvx_c_positional_length by (simp add: routines_CEntries)
  have lookup: "R_dlsym (R_init_linproj dll) R_C_SYM s =
      (if s = ''dsygvx_c'' then Some (FunAddr ''dsygvx_c'') else None)"
    by (simp add: R_dlsym_def symbols_of_def R_init_linproj_fields routines_CEntries)
  have table: "length CEntries = 2" "name (last CEntries) = None"
    by (simp_all add: CEntries_def)
  show ?thesis
    using arity lookup table
    by (simp only: routines_CEntries R_init_linproj_fields dsygvx_c_positional.simps
        simp_thms)
qed

text \<open>
  C9. The initialisation registers the table for the \<^verbatim>\<open>.C\<close> convention and passes null
  for the \<^verbatim>\<open>.Call\<close>, \<^verbatim>\<open>.Fortran\<close> and \<^verbatim>\<open>.External\<close> tables, so it registers nothing for
  these: their routines are what they were, none in a module that has just been loaded.
  With the lookup of unregistered symbols off, such a module resolves \<^verbatim>\<open>dsygvx_c\<close> for \<^verbatim>\<open>.C\<close>
  and resolves no name for any other convention, whatever the shared object exports.
\<close>

theorem R_init_linproj_only_dot_C:
  "R_init_linproj dll =
     R_useDynamicSymbols (R_registerRoutines dll (Some CEntries) None None None) False
   \<and> CallSymbols (R_init_linproj dll) = CallSymbols dll
   \<and> FortranSymbols (R_init_linproj dll) = FortranSymbols dll
   \<and> ExternalSymbols (R_init_linproj dll) = ExternalSymbols dll
   \<and> symbols_of (R_init_linproj (loaded h)) R_CALL_SYM = []
   \<and> symbols_of (R_init_linproj (loaded h)) R_FORTRAN_SYM = []
   \<and> symbols_of (R_init_linproj (loaded h)) R_EXTERNAL_SYM = []
   \<and> R_dlsym (R_init_linproj (loaded h)) t s =
       (if t = R_C_SYM \<and> s = ''dsygvx_c'' then Some (FunAddr ''dsygvx_c'') else None)"
proof -
  have calls: "R_init_linproj dll =
      R_useDynamicSymbols (R_registerRoutines dll (Some CEntries) None None None) False"
    by (simp add: R_init_linproj_def)
  have empty: "symbols_of (R_init_linproj (loaded h)) R_CALL_SYM = []"
    "symbols_of (R_init_linproj (loaded h)) R_FORTRAN_SYM = []"
    "symbols_of (R_init_linproj (loaded h)) R_EXTERNAL_SYM = []"
    by (simp_all add: symbols_of_def R_init_linproj_fields loaded_def)
  have lookup: "R_dlsym (R_init_linproj (loaded h)) t s =
      (if t = R_C_SYM \<and> s = ''dsygvx_c'' then Some (FunAddr ''dsygvx_c'') else None)"
  proof (cases t)
    case R_C_SYM
    then show ?thesis
      by (simp add: R_dlsym_def symbols_of_def R_init_linproj_fields routines_CEntries)
  next
    case R_CALL_SYM
    then show ?thesis
      by (simp add: R_dlsym_def empty R_init_linproj_fields)
  next
    case R_FORTRAN_SYM
    then show ?thesis
      by (simp add: R_dlsym_def empty R_init_linproj_fields)
  next
    case R_EXTERNAL_SYM
    then show ?thesis
      by (simp add: R_dlsym_def empty R_init_linproj_fields)
  qed
  show ?thesis
    apply (intro conjI)
           apply (fact calls)
          apply (fact R_init_linproj_fields(3))
         apply (fact R_init_linproj_fields(4))
        apply (fact R_init_linproj_fields(5))
       apply (fact empty(1))
      apply (fact empty(2))
     apply (fact empty(3))
    apply (fact lookup)
    done
qed

end
